theory Spec2Isabelle
  imports Main "HOL-Library.AList" "HOL-Library.Multiset"
begin

section \<open>Errors\<close>

text \<open>
  The error values of package \<open>system\<close> that the modelled functions return, together with
  \<open>io.EOF\<close> of the standard library. \<open>Errorf\<close> carries the text of an error built with
  \<open>fmt.Errorf\<close>; \<open>errBlank\<close> is the package variable \<open>errors.New("")\<close> of daemon.go, which
  \<open>graph.traverse\<close> compares by identity. \<open>OSError\<close> stands for any error of \<open>os.Open\<close> or
  \<open>File.Stat\<close> other than "does not exist", and \<open>DefineError\<close> for an error returned by a unit
  implementation's \<open>Define\<close>.
\<close>

datatype error =
    EOF
  | ErrNotImplemented
  | ErrUnknownType
  | ErrNotFound
  | ErrIsDir
  | ErrExists
  | ErrDepFail
  | errBlank
  | Errorf string
  | ErrTransactionConflict
  | OSError string
  | DefineError string

text \<open>
  How a call ends: it returns its results, or it panics (a nil pointer is dereferenced,
  \<open>panic\<close> or \<open>log.Fatalln\<close> is called). \<open>OutOfFuel\<close> is not an outcome of the program: the
  recursive functions below take a bound on their recursion depth, and running into the
  bound gives \<open>OutOfFuel\<close>. Each theorem that says a call returns proves that a large
  enough bound gives \<open>Returned\<close>.
\<close>

datatype 'a outcome = OutOfFuel | Panicked string | Returned 'a

definition nil_dereference :: string where
  \<comment> \<open>the text of the runtime panic for a method call or field access through a nil pointer\<close>
  "nil_dereference = ''invalid memory address or nil pointer dereference''"

section \<open>The log buffer (log.go)\<close>

subsection \<open>\<open>bytes.Buffer\<close>\<close>

text \<open>
  \<open>Log\<close> keeps its content in a \<open>bytes.Buffer\<close> of the Go standard library and asks that
  buffer for its length and its capacity. The buffer is a byte slice \<open>buf\<close> with a read
  offset \<open>off\<close>: the unread content is \<open>buf[off:]\<close>, \<open>Len()\<close> is \<open>len(buf) - off\<close> and \<open>Cap()\<close> is
  \<open>cap(buf)\<close>, the size of the slice's backing array. The record keeps \<open>buf[0:len(buf)]\<close>, the
  offset and the capacity. Bytes are \<open>char\<close>s.
\<close>

record Buffer =
  buf :: string
  off :: nat
  cap :: nat

definition NewBuffer :: "nat \<Rightarrow> Buffer" where
  \<comment> \<open>\<open>bytes.NewBuffer(make([]byte, 0, c))\<close>\<close>
  "NewBuffer c = \<lparr>buf = [], off = 0, cap = c\<rparr>"

definition Buffer_Len :: "Buffer \<Rightarrow> nat" where
  "Buffer_Len b = length (buf b) - off b"

definition Buffer_Cap :: "Buffer \<Rightarrow> nat" where
  "Buffer_Cap b = cap b"

definition Buffer_Bytes :: "Buffer \<Rightarrow> string" where
  "Buffer_Bytes b = drop (off b) (buf b)"

definition Buffer_Reset :: "Buffer \<Rightarrow> Buffer" where
  "Buffer_Reset b = b\<lparr>buf := [], off := 0\<rparr>"

text \<open>
  \<open>Buffer.Read(p)\<close>, for a slice \<open>p\<close> of length \<open>k\<close>: the result is the count, the error, the
  bytes copied into \<open>p\<close> and the buffer afterwards. An empty buffer is reset and reports
  \<open>io.EOF\<close> unless \<open>p\<close> is empty.
\<close>

definition Buffer_Read :: "Buffer \<Rightarrow> nat \<Rightarrow> nat \<times> error option \<times> string \<times> Buffer" where
  "Buffer_Read b k =
     (if off b \<ge> length (buf b)
      then (0, (if k = 0 then None else Some EOF), [], Buffer_Reset b)
      else (let n = min k (Buffer_Len b)
            in (n, None, take n (Buffer_Bytes b), b\<lparr>off := off b + n\<rparr>)))"

text \<open>
  \<open>Buffer.Write(p)\<close> calls \<open>grow(len(p))\<close> and copies \<open>p\<close> behind the content. \<open>grow\<close> resets
  an empty buffer whose offset is not zero; when the bytes do not fit behind \<open>len(buf)\<close> it
  either slides the content down to the start of the array (when content and new bytes
  together take at most half the capacity) or allocates a new array of \<open>2*cap(buf) + n\<close>
  bytes, \<open>makeSlice(2*c + n)\<close>, and moves the content there; newer releases of the
  library allocate at least twice the capacity that is left behind the offset. It
  never fails (short of running out of memory).
\<close>

definition Buffer_grow :: "Buffer \<Rightarrow> nat \<Rightarrow> Buffer" where
  "Buffer_grow b0 n =
     (let b = (if Buffer_Len b0 = 0 \<and> off b0 \<noteq> 0 then Buffer_Reset b0 else b0);
          m = Buffer_Len b
      in if length (buf b) + n \<le> cap b then b
         else if m + n \<le> cap b div 2
              then b\<lparr>buf := Buffer_Bytes b, off := 0\<rparr>
              else b\<lparr>buf := Buffer_Bytes b, off := 0, cap := 2 * cap b + n\<rparr>)"

definition Buffer_Write :: "Buffer \<Rightarrow> string \<Rightarrow> nat \<times> error option \<times> Buffer" where
  "Buffer_Write b p =
     (let b' = Buffer_grow b (length p)
      in (length p, None, b'\<lparr>buf := buf b' @ p\<rparr>))"

text \<open>
  \<open>Buffer.ReadString(delim)\<close> consumes the content through the first \<open>delim\<close>; when there
  is none it consumes everything and reports \<open>io.EOF\<close>.
\<close>

definition Buffer_ReadString :: "Buffer \<Rightarrow> char \<Rightarrow> string \<times> error option \<times> Buffer" where
  "Buffer_ReadString b delim =
     (let rest = Buffer_Bytes b;
          i = length (takeWhile (\<lambda>c. c \<noteq> delim) rest)
      in if i < length rest
         then (take (Suc i) rest, None, b\<lparr>off := off b + Suc i\<rparr>)
         else (rest, Some EOF, b\<lparr>off := length (buf b)\<rparr>))"

subsection \<open>\<open>bytes.Reader\<close>\<close>

text \<open>
  A \<open>bytes.Reader\<close> reads from a byte slice \<open>s\<close> at index \<open>i\<close> (the fields \<open>r_s\<close> and \<open>r_i\<close>). \<open>Reader.Read\<close> reports
  \<open>io.EOF\<close> itself only when called at the end of the slice.
\<close>

record Reader =
  r_s :: string
  r_i :: nat

definition NewReader :: "string \<Rightarrow> Reader" where
  "NewReader bs = \<lparr>r_s = bs, r_i = 0\<rparr>"

definition Reader_Len :: "Reader \<Rightarrow> nat" where
  "Reader_Len r = length (r_s r) - r_i r"

definition Reader_Read :: "Reader \<Rightarrow> nat \<Rightarrow> nat \<times> error option \<times> string \<times> Reader" where
  "Reader_Read r k =
     (if r_i r \<ge> length (r_s r) then (0, Some EOF, [], r)
      else (let n = min k (length (r_s r) - r_i r)
            in (n, None, take n (drop (r_i r) (r_s r)), r\<lparr>r_i := r_i r + n\<rparr>)))"

subsection \<open>\<open>Log\<close>\<close>

text \<open>
  The \<open>Log\<close> struct: the embedded \<open>*bytes.Reader\<close> (\<open>None\<close> is the nil pointer) and the
  buffer. The embedded logger only formats lines and passes them to \<open>Write\<close>.
\<close>

record Log =
  Reader :: "Reader option"
  buffer :: Buffer

definition BUFFER_SIZE :: nat where
  "BUFFER_SIZE = 10000"

definition newLog :: "nat \<Rightarrow> Log" where
  \<comment> \<open>the \<open>Log\<close> that \<open>NewLog\<close> builds, for a buffer of capacity \<open>c\<close>\<close>
  "newLog c = \<lparr>Reader = None, buffer = NewBuffer c\<rparr>"

definition NewLog :: Log where
  "NewLog = newLog BUFFER_SIZE"

definition Log_Len :: "Log \<Rightarrow> nat" where
  "Log_Len l = Buffer_Len (buffer l)"

definition Log_Cap :: "Log \<Rightarrow> nat" where
  "Log_Cap l = Buffer_Cap (buffer l)"

text \<open>
  \<open>Log.Read(b)\<close> for a slice of length \<open>k\<close>. A nil reader is replaced by a reader over
  the buffer's current content. The deferred function turns a read that leaves the
  reader empty into \<open>io.EOF\<close> and drops the reader; it does nothing when the reader
  itself reported an error.
\<close>

definition Log_Read :: "Log \<Rightarrow> nat \<Rightarrow> nat \<times> error option \<times> string \<times> Log" where
  "Log_Read l k =
     (let r0 = (case Reader l of None \<Rightarrow> NewReader (Buffer_Bytes (buffer l)) | Some r \<Rightarrow> r);
          (n, err, bs, r1) = Reader_Read r0 k
      in if err = None \<and> Reader_Len r1 = 0
         then (n, Some EOF, bs, l\<lparr>Reader := None\<rparr>)
         else (n, err, bs, l\<lparr>Reader := Some r1\<rparr>))"

text \<open>
  \<open>Log.Write(b)\<close>. The first branch appends when length plus incoming bytes is within
  \<open>Cap()\<close>. Otherwise a deferred function runs after the body and, when the body left no
  error, reads one line off the head with \<open>ReadString('\n')\<close>, whose error becomes the
  error of \<open>Write\<close>. The body keeps the last \<open>Cap()\<close> bytes of an oversized write after a
  reset, or first reads \<open>len(b) - Cap() + Len()\<close> bytes off the head.
\<close>

definition newline :: char where
  "newline = CHR 0x0A"

definition Log_Write_body :: "Log \<Rightarrow> string \<Rightarrow> nat \<times> error option \<times> Log" where
  "Log_Write_body l b =
     (if length b \<ge> Log_Cap l
      then (let (n, err, bf) = Buffer_Write (Buffer_Reset (buffer l)) (drop (length b - Log_Cap l) b)
            in (n, err, l\<lparr>buffer := bf\<rparr>))
      else (let (k, rerr, bs, bf) = Buffer_Read (buffer l) (length b + Log_Len l - Log_Cap l)
            in case rerr of
                 Some e \<Rightarrow> (0, Some e, l\<lparr>buffer := bf\<rparr>)
               | None \<Rightarrow> (let (n, err, bf') = Buffer_Write bf b in (n, err, l\<lparr>buffer := bf'\<rparr>))))"

definition Log_Write :: "Log \<Rightarrow> string \<Rightarrow> nat \<times> error option \<times> Log" where
  "Log_Write l b =
     (if Log_Len l + length b \<le> Log_Cap l
      then (let (n, err, bf) = Buffer_Write (buffer l) b in (n, err, l\<lparr>buffer := bf\<rparr>))
      else (let (n, err, l1) = Log_Write_body l b
            in if err = None
               then (let (line, err', bf) = Buffer_ReadString (buffer l1) newline
                     in (n, err', l1\<lparr>buffer := bf\<rparr>))
               else (n, err, l1)))"

definition Log_Bytes :: "Log \<Rightarrow> string" where
  \<comment> \<open>the content the buffer holds, \<open>l.buffer.Bytes()\<close>\<close>
  "Log_Bytes l = Buffer_Bytes (buffer l)"

subsection \<open>The round trip at capacity 20\<close>

definition line1 :: string where
  "line1 = ''0123456789'' @ [newline]"

definition line2 :: string where
  "line2 = ''ABCDEFGHIJ'' @ [newline]"

definition after_writes :: "nat \<Rightarrow> string list \<Rightarrow> Log" where
  \<comment> \<open>a new log of capacity \<open>c\<close> after the writes \<open>ws\<close>, in order\<close>
  "after_writes c ws = fold (\<lambda>w l. snd (snd (Log_Write l w))) ws (newLog c)"

lemmas buf_defs = Log_Write_def Log_Write_body_def Buffer_Write_def Buffer_grow_def
  Buffer_Len_def Buffer_Cap_def Buffer_Bytes_def Buffer_Reset_def Buffer_Read_def
  Buffer_ReadString_def newLog_def NewBuffer_def Log_Len_def Log_Cap_def newline_def
  Log_Bytes_def Let_def

lemmas read_defs = Log_Read_def Reader_Read_def Reader_Len_def NewReader_def

lemma write1:
  "Log_Write (newLog 20) line1 =
     (11, None, \<lparr>Reader = None, buffer = \<lparr>buf = line1, off = 0, cap = 20\<rparr>\<rparr>)"
  by (simp add: buf_defs line1_def)

lemma body2:
  "Log_Write_body \<lparr>Reader = None, buffer = \<lparr>buf = line1, off = 0, cap = 20\<rparr>\<rparr> line2 =
     (11, None, \<lparr>Reader = None, buffer = \<lparr>buf = drop 2 line1 @ line2, off = 0, cap = 51\<rparr>\<rparr>)"
  by (simp add: buf_defs line1_def line2_def)

lemma write2:
  "Log_Write \<lparr>Reader = None, buffer = \<lparr>buf = line1, off = 0, cap = 20\<rparr>\<rparr> line2 =
     (11, None, \<lparr>Reader = None, buffer = \<lparr>buf = drop 2 line1 @ line2, off = 9, cap = 51\<rparr>\<rparr>)"
  by (simp add: buf_defs line1_def line2_def)

lemma write3:
  "Log_Write \<lparr>Reader = None, buffer = \<lparr>buf = drop 2 line1 @ line2, off = 9, cap = 51\<rparr>\<rparr> line1 =
     (11, None,
      \<lparr>Reader = None, buffer = \<lparr>buf = drop 2 line1 @ line2 @ line1, off = 9, cap = 51\<rparr>\<rparr>)"
  by (simp add: buf_defs line1_def line2_def)

text \<open>
  C4. On a new log of capacity 20, writing the 11 bytes \<open>0123456789\n\<close> and then the 11
  bytes \<open>ABCDEFGHIJ\n\<close> leaves exactly the second line in the buffer. The body of the second
  write reads 11 + 11 - 20 = 2 bytes off the head and appends, which leaves the 20 bytes
  \<open>23456789\nABCDEFGHIJ\n\<close>; the deferred \<open>ReadString\<close> then consumes \<open>23456789\n\<close>, the
  rest of the first line through its terminator. Both writes return 11 and no error.
\<close>

theorem log_round_trip_capacity_20:
  "(case Log_Write (newLog 20) line1 of (n1, e1, l1) \<Rightarrow>
      n1 = 11 \<and> e1 = None \<and> Log_Bytes l1 = line1 \<and>
      (case Log_Write_body l1 line2 of (nb, eb, lb) \<Rightarrow>
         eb = None \<and> Log_Bytes lb = drop 2 line1 @ line2 \<and>
         fst (Buffer_ReadString (buffer lb) newline) = drop 2 line1) \<and>
      (case Log_Write l1 line2 of (n2, e2, l2) \<Rightarrow>
         n2 = 11 \<and> e2 = None \<and> Log_Bytes l2 = line2 \<and> Log_Len l2 = 11))"
  unfolding write1 prod.case body2 write2
  by (simp add: Log_Bytes_def Buffer_Bytes_def Log_Len_def Buffer_Len_def
      Buffer_ReadString_def line1_def line2_def newline_def)

text \<open>
  C5. The documentation of log.go promises a bound ("Maximum number of bytes kept",
  "Keeps up to 10000 bytes of data in-memory"), and \<open>Write\<close> compares against \<open>Cap()\<close> in
  each of its branches. \<open>Cap()\<close> is the capacity of the buffer's backing array, though, and
  the append of the eviction branch makes \<open>bytes.Buffer\<close> allocate a larger array. On a
  log of capacity 20 the second write of the round trip raises \<open>Cap()\<close> from 20 to 51, so
  a third write of 11 bytes takes the direct branch (11 + 11 \<le> 51), returns without
  error, and leaves 22 bytes of content in a log that was created with capacity 20.
\<close>

theorem log_third_write_exceeds_capacity:
  "Log_Cap (newLog 20) = 20 \<and>
   Log_Cap (after_writes 20 [line1, line2]) = 51 \<and>
   (case Log_Write (after_writes 20 [line1, line2]) line1 of (n, e, l) \<Rightarrow>
      n = 11 \<and> e = None \<and> Log_Bytes l = line2 @ line1 \<and> Log_Len l = 22)"
  unfolding after_writes_def fold_simps comp_def write1 write2 write3 snd_conv prod.case id_def
  by (simp add: Log_Len_def Buffer_Len_def Log_Bytes_def Buffer_Bytes_def line1_def line2_def
      Log_Cap_def newLog_def Buffer_Cap_def NewBuffer_def)

text \<open>
  C6, as stated, fails: after the round trip a read into a slice of 64 bytes delivers
  the 11 bytes of the buffer together with \<open>io.EOF\<close>, and the next read, with no write in
  between, delivers the same 11 bytes and \<open>io.EOF\<close> again, not zero bytes.
\<close>

theorem log_read_after_eof_delivers_again:
  "(case Log_Read (after_writes 20 [line1, line2]) 64 of (n1, e1, bs1, l1) \<Rightarrow>
      n1 = 11 \<and> e1 = Some EOF \<and> bs1 = line2 \<and> Log_Bytes l1 = line2 \<and>
      (case Log_Read l1 64 of (n2, e2, bs2, l2) \<Rightarrow>
         n2 = 11 \<and> e2 = Some EOF \<and> bs2 = line2 \<and> n2 \<noteq> 0))"
  unfolding after_writes_def fold_simps comp_def write1 write2 snd_conv id_def
  by (simp add: read_defs Log_Bytes_def Buffer_Bytes_def line1_def line2_def Let_def)

text \<open>
  C6, amended. When a read has delivered the last bytes of the snapshot together with
  \<open>io.EOF\<close>, the reader is dropped and the buffer is untouched; the next read of \<open>k'\<close>
  bytes, with no write in between, takes a new snapshot of the same content and delivers
  its first \<open>min k' Len\<close> bytes again, with \<open>io.EOF\<close> when that is all of it. It yields zero
  bytes and \<open>io.EOF\<close> only when the buffer is empty.
\<close>

theorem log_read_after_eof_new_snapshot:
  assumes "Log_Read l k = (n, Some EOF, bs, l1)" and "0 < n"
  shows "Log_Bytes l1 = Log_Bytes l \<and>
         Log_Read l1 k' =
           (min k' (Log_Len l), (if Log_Len l \<le> k' then Some EOF else None),
            take k' (Log_Bytes l),
            l1\<lparr>Reader := (if 0 < Log_Len l \<and> Log_Len l \<le> k' then None
                           else Some \<lparr>r_s = Log_Bytes l, r_i = min k' (Log_Len l)\<rparr>)\<rparr>)"
  using assms
  by (auto simp add: read_defs Log_Bytes_def Log_Len_def Buffer_Len_def Buffer_Bytes_def Let_def
      split: option.splits if_splits prod.splits)

theorem log_read_after_eof_new_snapshot_witness:
  "Log_Read (after_writes 20 [line1, line2]) 64 =
     (11, Some EOF, line2, after_writes 20 [line1, line2]) \<and>
   Log_Read (after_writes 20 [line1, line2]) 64 =
     (min 64 (Log_Len (after_writes 20 [line1, line2])), Some EOF,
      take 64 (Log_Bytes (after_writes 20 [line1, line2])),
      after_writes 20 [line1, line2])"
proof -
  have first: "Log_Read (after_writes 20 [line1, line2]) 64 =
      (11, Some EOF, line2, after_writes 20 [line1, line2])"
    unfolding after_writes_def fold_simps comp_def write1 write2 snd_conv id_def
    by (simp add: read_defs Log_Bytes_def Buffer_Bytes_def line1_def line2_def Let_def)
  have len: "Log_Len (after_writes 20 [line1, line2]) = 11"
    unfolding after_writes_def fold_simps comp_def write1 write2 snd_conv id_def
    by (simp add: Log_Len_def Buffer_Len_def line1_def line2_def)
  have rd: "Reader (after_writes 20 [line1, line2]) = None"
    unfolding after_writes_def fold_simps comp_def write1 write2 snd_conv id_def
    by simp
  have "after_writes 20 [line1, line2]\<lparr>Reader := None\<rparr> = after_writes 20 [line1, line2]"
    using rd by (cases "after_writes 20 [line1, line2]") simp
  with log_read_after_eof_new_snapshot [OF first, of 64] len first
  show ?thesis by simp
qed

section \<open>Units\<close>

text \<open>
  Modelled from the spec: the \<open>Unit\<close> type, \<open>NewUnit\<close> and \<open>IsLoaded\<close> are not among the
  source files, nor are the unit implementations behind \<open>unit.Interface\<close>. The record
  follows the spec's data model: an origin path that is empty until the unit is loaded,
  a load state, an activation state, the implementation, and the dependency name lists
  that the accessors \<open>Requires()\<close>, \<open>Wants()\<close>, \<open>After()\<close>, \<open>Before()\<close> and \<open>Conflicts()\<close> read.
  A \<open>*Unit\<close> is a pointer: two names denote the same unit when they hold the same
  pointer. The unit's own log is left out; what the daemon writes there is formatted by
  the logging library.
\<close>

type_synonym uptr = nat

datatype load_state = Unloaded | Loaded | Error | Masked

datatype activation = Inactive | Activating | Active | Deactivating | Failed | Reloading

datatype impl = Target | Service | Other nat

record Definition =
  Requires :: "string list"
  Wants :: "string list"
  After :: "string list"
  Before :: "string list"
  Conflicts :: "string list"

record Unit =
  u_name :: string
  u_path :: string
  u_load :: load_state
  u_active :: activation
  Interface :: impl
  definition_of :: Definition

definition no_dependencies :: Definition where
  "no_dependencies = \<lparr>Requires = [], Wants = [], After = [], Before = [], Conflicts = []\<rparr>"

definition NewUnit :: "impl \<Rightarrow> Unit" where
  "NewUnit v = \<lparr>u_name = [], u_path = [], u_load = Unloaded, u_active = Inactive,
                Interface = v, definition_of = no_dependencies\<rparr>"

definition IsLoaded :: "Unit \<Rightarrow> bool" where
  "IsLoaded u = (u_load u = Loaded)"

section \<open>Names and paths\<close>

text \<open>
  \<open>filepath.Ext\<close> scans the name from its end and returns the suffix that starts at the
  last dot of the last path element, or the empty string; \<open>ext_scan\<close> is that loop over
  the reversed name. \<open>filepath.IsAbs\<close>, \<open>strings.HasSuffix\<close> and \<open>strings.TrimSuffix\<close> are as
  in the library (with \<open>/\<close> as the path separator).
\<close>

fun ext_scan :: "string \<Rightarrow> string \<Rightarrow> string" where
  "ext_scan [] acc = []"
| "ext_scan (c # rp) acc =
     (if c = CHR ''/'' then []
      else if c = CHR ''.'' then c # acc
      else ext_scan rp (c # acc))"

definition Ext :: "string \<Rightarrow> string" where
  "Ext p = ext_scan (rev p) []"

definition IsAbs :: "string \<Rightarrow> bool" where
  "IsAbs p = (case p of [] \<Rightarrow> False | c # _ \<Rightarrow> c = CHR ''/'')"

definition HasSuffix :: "string \<Rightarrow> string \<Rightarrow> bool" where
  "HasSuffix x suffix =
     (length x \<ge> length suffix \<and> drop (length x - length suffix) x = suffix)"

definition TrimSuffix :: "string \<Rightarrow> string \<Rightarrow> string" where
  "TrimSuffix x suffix =
     (if HasSuffix x suffix then take (length x - length suffix) x else x)"

text \<open>
  The table \<open>supported\<close>; a suffix that is not a key reads as \<open>false\<close>, the zero value.
\<close>

definition supported :: "string \<rightharpoonup> bool" where
  "supported =
     [''.service'' \<mapsto> True, ''.target'' \<mapsto> True, ''.mount'' \<mapsto> False, ''.socket'' \<mapsto> False]"

definition SupportedSuffix :: "string \<Rightarrow> bool" where
  "SupportedSuffix suffix = (case supported suffix of None \<Rightarrow> False | Some b \<Rightarrow> b)"

definition Supported :: "string \<Rightarrow> bool" where
  "Supported filename = SupportedSuffix (Ext filename)"

section \<open>The daemon of log.go\<close>

text \<open>
  The \<open>Daemon\<close> struct of log.go: the map from names to unit pointers and the search
  paths. \<open>heap\<close> holds the unit each pointer points to, and \<open>fresh\<close> is the next pointer
  that \<open>NewUnit\<close> hands out. The system log, the state, the starting time and the mutex
  play no part in the functions below, which are modelled as run one at a time.
\<close>

record Daemon =
  units :: "string \<rightharpoonup> uptr"
  paths :: "string list"
  heap :: "uptr \<Rightarrow> Unit"
  fresh :: uptr

definition DEFAULT_PATHS :: "string list" where
  "DEFAULT_PATHS = [''/etc/systemd/system/'', ''/run/systemd/system'', ''/lib/systemd/system'']"

definition New :: Daemon where
  "New = \<lparr>units = Map.empty, paths = DEFAULT_PATHS, heap = (\<lambda>_. NewUnit (Other 0)), fresh = 0\<rparr>"

definition SetPaths :: "Daemon \<Rightarrow> string list \<Rightarrow> Daemon" where
  "SetPaths sys ps = sys\<lparr>paths := ps\<rparr>"

text \<open>
  What the functions get from outside the package: \<open>os.Open\<close> on a path, with what
  \<open>Stat\<close> and \<open>Close\<close> of the opened file report and the text it holds; \<open>filepath.Join\<close>
  (which cleans the joined path); and \<open>Define\<close> of the unit implementation, which parses
  the text into a definition or fails.
\<close>

record os_file =
  stat_err :: "error option"
  is_dir :: bool
  content :: string
  close_err :: "error option"

datatype open_result = NotExist | OpenFails error | Opened os_file

record env =
  Open :: "string \<Rightarrow> open_result"
  Join :: "string \<Rightarrow> string \<Rightarrow> string"
  Define :: "impl \<Rightarrow> string \<Rightarrow> error + Definition"

text \<open>
  \<open>load\<close> and \<open>Get\<close> return a pointer (\<open>None\<close> is nil) and an error (\<open>None\<close> is nil), or
  panic.
\<close>

type_synonym result = "(uptr option \<times> error option) outcome"

definition Unit_of :: "Daemon \<Rightarrow> string \<Rightarrow> uptr option \<times> error option" where
  \<comment> \<open>\<open>Daemon.Unit\<close>\<close>
  "Unit_of sys n = (case units sys n of None \<Rightarrow> (None, Some ErrNotFound) | Some u \<Rightarrow> (Some u, None))"

definition newUnit :: "Daemon \<Rightarrow> string \<Rightarrow> impl \<Rightarrow> uptr \<times> Daemon" where
  "newUnit sys n v =
     (let u = fresh sys;
          sys1 = sys\<lparr>fresh := Suc u, heap := (heap sys)(u := (NewUnit v)\<lparr>u_name := n\<rparr>)\<rparr>;
          sys2 = sys1\<lparr>units := (units sys1)(n \<mapsto> u)\<rparr>
      in if HasSuffix n ''.service''
         then (u, sys2\<lparr>units := (units sys2)(TrimSuffix n ''.service'' \<mapsto> u)\<rparr>)
         else (u, sys2))"


definition impl_of_ext :: "string \<Rightarrow> impl option" where
  \<comment> \<open>the \<open>switch filepath.Ext(name)\<close> of \<open>load\<close>; \<open>None\<close> is its \<open>default\<close> case\<close>
  "impl_of_ext e =
     (if e = ''.target'' then Some Target
      else if e = ''.service'' then Some Service
      else None)"

definition load_file :: "env \<Rightarrow> string \<Rightarrow> Daemon \<Rightarrow> string \<Rightarrow> os_file \<Rightarrow> result \<times> Daemon" where
  \<comment> \<open>the body of the loop of \<open>load\<close> once \<open>os.Open(path)\<close> has returned \<open>f\<close>\<close>
  "load_file e n sys p f =
     (case (case Unit_of sys n of
              (Some u, None) \<Rightarrow> Some (u, sys)
            | _ \<Rightarrow> map_option (newUnit sys n) (impl_of_ext (Ext n))) of
        None \<Rightarrow> (Panicked ''Trying to load an unsupported unit type'', sys)
      | Some (u, sys1) \<Rightarrow>
          (let sys2 = sys1\<lparr>heap := (heap sys1)(u := (heap sys1 u)\<lparr>u_path := p\<rparr>),
                           units := (units sys1)(p \<mapsto> u)\<rparr>;
               err = (case stat_err f of
                        Some x \<Rightarrow> Some x
                      | None \<Rightarrow> if is_dir f then Some ErrIsDir else None)
           in case err of
                Some x \<Rightarrow> (Returned (Some u, Some x), sys2)
              | None \<Rightarrow>
                  (case Define e (Interface (heap sys2 u)) (content f) of
                     Inl x \<Rightarrow>
                       (Returned (Some u, Some x),
                        sys2\<lparr>heap := (heap sys2)(u := (heap sys2 u)\<lparr>u_load := Error\<rparr>)\<rparr>)
                   | Inr d \<Rightarrow>
                       (Returned (Some u, close_err f),
                        sys2\<lparr>heap := (heap sys2)
                                (u := (heap sys2 u)\<lparr>u_load := Loaded, definition_of := d\<rparr>)\<rparr>))))"

fun load_loop :: "env \<Rightarrow> string \<Rightarrow> Daemon \<Rightarrow> string list \<Rightarrow> result \<times> Daemon" where
  "load_loop e n sys [] = (Returned (None, Some ErrNotFound), sys)"
| "load_loop e n sys (p # ps) =
     (case Open e p of
        NotExist \<Rightarrow> load_loop e n sys ps
      | OpenFails x \<Rightarrow> (Returned (None, Some x), sys)
      | Opened f \<Rightarrow> load_file e n sys p f)"

definition candidates :: "env \<Rightarrow> Daemon \<Rightarrow> string \<Rightarrow> string list" where
  \<comment> \<open>the slice \<open>paths\<close> that \<open>load\<close> builds\<close>
  "candidates e sys n = (if IsAbs n then [n] else map (\<lambda>p. Join e p n) (paths sys))"

definition load :: "env \<Rightarrow> Daemon \<Rightarrow> string \<Rightarrow> result \<times> Daemon" where
  "load e sys n =
     (if \<not> Supported n then (Returned (None, Some ErrUnknownType), sys)
      else load_loop e n sys (candidates e sys n))"

definition Get :: "env \<Rightarrow> Daemon \<Rightarrow> string \<Rightarrow> result \<times> Daemon" where
  "Get e sys n =
     (case Unit_of sys n of
        (Some u, None) \<Rightarrow> if IsLoaded (heap sys u) then (Returned (Some u, None), sys) else load e sys n
      | _ \<Rightarrow> load e sys n)"

text \<open>
  \<open>IsEnabled\<close> of log.go returns \<open>-1\<close> and \<open>ErrNotImplemented\<close>. \<open>IsEnabled\<close> of daemon.go
  (\<open>IsEnabled0\<close> here, since both files declare the name) returns the constant
  \<open>unit.Enabled\<close> and \<open>ErrNotImplemented\<close>; the constant belongs to a package that is not
  among the source files and is a parameter. Neither reads its receiver or the name.
\<close>

definition IsEnabled :: "Daemon \<Rightarrow> string \<Rightarrow> int \<times> error option" where
  "IsEnabled sys n = (- 1, Some ErrNotImplemented)"

definition IsEnabled0 :: "int \<Rightarrow> 'daemon \<Rightarrow> string \<Rightarrow> int \<times> error option" where
  "IsEnabled0 Enabled sys n = (Enabled, Some ErrNotImplemented)"

subsection \<open>A small file system for the examples\<close>

definition regular :: "string \<Rightarrow> os_file" where
  \<comment> \<open>a readable regular file holding the given text\<close>
  "regular txt = \<lparr>stat_err = None, is_dir = False, content = txt, close_err = None\<rparr>"

definition directory :: os_file where
  "directory = \<lparr>stat_err = None, is_dir = True, content = [], close_err = None\<rparr>"

definition join_slash :: "string \<Rightarrow> string \<Rightarrow> string" where
  \<comment> \<open>what \<open>filepath.Join\<close> gives for a clean directory and a plain file name\<close>
  "join_slash d n = d @ ''/'' @ n"

definition example_env :: "(string \<times> os_file) list \<Rightarrow> env" where
  \<comment> \<open>the listed paths exist, nothing else does, and every text parses\<close>
  "example_env fs =
     \<lparr>Open = (\<lambda>p. case map_of fs p of None \<Rightarrow> NotExist | Some f \<Rightarrow> Opened f),
      Join = join_slash,
      Define = (\<lambda>v txt. Inr no_dependencies)\<rparr>"

lemmas example_defs = Supported_def SupportedSuffix_def supported_def Ext_def load_def
  candidates_def IsAbs_def SetPaths_def New_def example_env_def join_slash_def regular_def
  directory_def load_file_def Unit_of_def impl_of_ext_def newUnit_def HasSuffix_def
  TrimSuffix_def NewUnit_def Get_def IsLoaded_def Let_def

subsection \<open>Unsupported and missing names\<close>







subsection \<open>The search order of \<open>load\<close>\<close>

definition loader_of :: "Daemon \<Rightarrow> string \<Rightarrow> impl option" where
  \<comment> \<open>the implementation whose \<open>Define\<close> parses the file: that of the unit already registered
      under the name, or else the one the extension selects\<close>
  "loader_of sys n =
     (case units sys n of Some u \<Rightarrow> Some (Interface (heap sys u)) | None \<Rightarrow> impl_of_ext (Ext n))"

lemma load_loop_skip:
  "\<forall>p\<in>set ps. Open e p = NotExist \<Longrightarrow> load_loop e n sys (ps @ qs) = load_loop e n sys qs"
  by (induction ps) auto

lemma newUnit_props:
  assumes "newUnit sys n v = (u, sys1)"
  shows "units sys1 n = Some u" "heap sys1 u = (NewUnit v)\<lparr>u_name := n\<rparr>"
  using assms by (auto simp: newUnit_def Let_def split: if_splits)

lemma load_file_unit:
  assumes "loader_of sys n = Some v"
  obtains u sys1 where
    "(case Unit_of sys n of (Some u, None) \<Rightarrow> Some (u, sys)
      | _ \<Rightarrow> map_option (newUnit sys n) (impl_of_ext (Ext n))) = Some (u, sys1)"
    "units sys1 n = Some u" "Interface (heap sys1 u) = v"
    "u_load (heap sys1 u) = (case units sys n of None \<Rightarrow> Unloaded | Some w \<Rightarrow> u_load (heap sys w))"
proof (cases "units sys n")
  case None
  with assms have i: "impl_of_ext (Ext n) = Some v" by (simp add: loader_of_def)
  obtain u sys1 where nu: "newUnit sys n v = (u, sys1)" by (cases "newUnit sys n v")
  from newUnit_props[OF nu] None i nu show ?thesis
    by (intro that[of u sys1]) (simp_all add: Unit_of_def NewUnit_def)
next
  case (Some w)
  with assms show ?thesis
    by (intro that[of w sys]) (simp_all add: Unit_of_def loader_of_def)
qed

lemma load_file_regular:
  assumes "loader_of sys n = Some v" "stat_err f = None" "\<not> is_dir f"
    and "Define e v (content f) = Inr d"
  shows "\<exists>u sys'. load_file e n sys p f = (Returned (Some u, close_err f), sys') \<and>
           units sys' n = Some u \<and> units sys' p = Some u \<and>
           u_path (heap sys' u) = p \<and> u_load (heap sys' u) = Loaded \<and>
           definition_of (heap sys' u) = d"
proof -
  from load_file_unit[OF assms(1)] obtain u sys1 where
    a: "(case Unit_of sys n of (Some u, None) \<Rightarrow> Some (u, sys)
      | _ \<Rightarrow> map_option (newUnit sys n) (impl_of_ext (Ext n))) = Some (u, sys1)"
    and b: "units sys1 n = Some u" "Interface (heap sys1 u) = v" by metis
  show ?thesis
    unfolding load_file_def a using b assms(2-4) by (simp add: Let_def)
qed

lemma load_file_dir:
  assumes "loader_of sys n = Some v" "stat_err f = None" "is_dir f"
  shows "\<exists>u sys'. load_file e n sys p f = (Returned (Some u, Some ErrIsDir), sys') \<and>
           u_path (heap sys' u) = p"
proof -
  from load_file_unit[OF assms(1)] obtain u sys1 where
    a: "(case Unit_of sys n of (Some u, None) \<Rightarrow> Some (u, sys)
      | _ \<Rightarrow> map_option (newUnit sys n) (impl_of_ext (Ext n))) = Some (u, sys1)"
    by metis
  show ?thesis
    unfolding load_file_def a using assms(2-3) by (simp add: Let_def)
qed

lemma candidates_split:
  assumes "\<not> IsAbs n" "i < length (paths sys)"
  shows "candidates e sys n =
           map (\<lambda>p. Join e p n) (take i (paths sys)) @ Join e (paths sys ! i) n #
           map (\<lambda>p. Join e p n) (drop (Suc i) (paths sys))"
proof -
  have "paths sys = take i (paths sys) @ paths sys ! i # drop (Suc i) (paths sys)"
    using assms(2) by (rule id_take_nth_drop)
  then have "map (\<lambda>p. Join e p n) (paths sys) =
      map (\<lambda>p. Join e p n) (take i (paths sys) @ paths sys ! i # drop (Suc i) (paths sys))"
    by simp
  then show ?thesis using assms(1) by (simp add: candidates_def)
qed

lemma load_first_existing:
  assumes "Supported n" "\<not> IsAbs n" "i < length (paths sys)"
    and "\<forall>j<i. Open e (Join e (paths sys ! j) n) = NotExist"
    and "Open e (Join e (paths sys ! i) n) = Opened f"
  shows "load e sys n = load_file e n sys (Join e (paths sys ! i) n) f"
proof -
  have "\<forall>p\<in>set (map (\<lambda>p. Join e p n) (take i (paths sys))). Open e p = NotExist"
    using assms(3,4) by (auto simp: in_set_conv_nth)
  then show ?thesis
    using assms(1,5) by (simp add: load_def candidates_split[OF assms(2,3)] load_loop_skip)
qed

text \<open>
  C8, as stated, fails: with the search paths \<open>/a\<close> and \<open>/b\<close>, a directory at
  \<open>/a/foo.service\<close> and a regular file at \<open>/b/foo.service\<close>, \<open>load\<close> does not pass over the
  first path. It stops there with \<open>ErrIsDir\<close>, leaves the unit unloaded with the directory
  as its path, and never opens the file on the second path.
\<close>

theorem load_stops_at_directory:
  "Open (example_env [(''/a/foo.service'', directory), (''/b/foo.service'', regular [])])
     ''/b/foo.service'' = Opened (regular []) \<and>
   (case load (example_env [(''/a/foo.service'', directory), (''/b/foo.service'', regular [])])
           (SetPaths New [''/a'', ''/b'']) ''foo.service'' of
      (r, sys') \<Rightarrow>
        r = Returned (Some 0, Some ErrIsDir) \<and> u_path (heap sys' 0) = ''/a/foo.service'' \<and>
        u_load (heap sys' 0) = Unloaded \<and> units sys' ''/b/foo.service'' = None)"
  by (simp add: example_defs)

text \<open>
  C8, amended. For a relative name of a supported kind, \<open>load\<close> takes the first search
  path, in the configured order, on which \<open>os.Open\<close> does not report that the file does
  not exist; paths on which nothing exists are passed over, and nothing behind that path
  is tried. When what was opened there is a directory, \<open>load\<close> fails with \<open>ErrIsDir\<close>. When
  it is a regular file whose text the unit's implementation accepts, the unit is loaded
  from it: its path is that candidate, its load state is \<open>Loaded\<close>, it holds the parsed
  definition, it is registered under the name, and \<open>load\<close> returns it with whatever
  closing the file reports.
\<close>

theorem load_first_existing_path:
  assumes "Supported n" and "\<not> IsAbs n" and "i < length (paths sys)"
    and "\<forall>j<i. Open e (Join e (paths sys ! j) n) = NotExist"
    and "Open e (Join e (paths sys ! i) n) = Opened f"
    and "stat_err f = None"
    and "loader_of sys n = Some v"
  shows "(is_dir f \<longrightarrow>
           (\<exists>u sys'. load e sys n = (Returned (Some u, Some ErrIsDir), sys') \<and>
              u_path (heap sys' u) = Join e (paths sys ! i) n)) \<and>
         (\<not> is_dir f \<and> Define e v (content f) = Inr d \<longrightarrow>
           (\<exists>u sys'. load e sys n = (Returned (Some u, close_err f), sys') \<and>
              units sys' n = Some u \<and>
              u_path (heap sys' u) = Join e (paths sys ! i) n \<and>
              u_load (heap sys' u) = Loaded \<and> definition_of (heap sys' u) = d))"
proof (intro conjI impI)
  assume "is_dir f"
  from load_file_dir[OF assms(7,6) this, of e "Join e (paths sys ! i) n"]
  show "\<exists>u sys'. load e sys n = (Returned (Some u, Some ErrIsDir), sys') \<and>
              u_path (heap sys' u) = Join e (paths sys ! i) n"
    unfolding load_first_existing[OF assms(1-5)] by blast
next
  assume "\<not> is_dir f \<and> Define e v (content f) = Inr d"
  then have a: "\<not> is_dir f" and b: "Define e v (content f) = Inr d" by simp_all
  from load_file_regular[OF assms(7,6) a b, of "Join e (paths sys ! i) n"]
  show "\<exists>u sys'. load e sys n = (Returned (Some u, close_err f), sys') \<and>
              units sys' n = Some u \<and>
              u_path (heap sys' u) = Join e (paths sys ! i) n \<and>
              u_load (heap sys' u) = Loaded \<and> definition_of (heap sys' u) = d"
    unfolding load_first_existing[OF assms(1-5)] by blast
qed

theorem load_first_existing_path_witness:
  "Supported ''foo.service'' \<and> \<not> IsAbs ''foo.service'' \<and>
   1 < length (paths (SetPaths New [''/a'', ''/b''])) \<and>
   Open (example_env [(''/b/foo.service'', regular [])]) ''/a/foo.service'' = NotExist \<and>
   Open (example_env [(''/b/foo.service'', regular [])]) ''/b/foo.service'' = Opened (regular []) \<and>
   stat_err (regular []) = None \<and> \<not> is_dir (regular []) \<and>
   loader_of (SetPaths New [''/a'', ''/b'']) ''foo.service'' = Some Service \<and>
   (\<exists>u sys'. load (example_env [(''/b/foo.service'', regular [])]) (SetPaths New [''/a'', ''/b''])
                ''foo.service'' = (Returned (Some u, None), sys') \<and>
      units sys' ''foo.service'' = Some u \<and> u_path (heap sys' u) = ''/b/foo.service'' \<and>
      u_load (heap sys' u) = Loaded)"
proof -
  let ?e = "example_env [(''/b/foo.service'', regular [])]"
  let ?sys = "SetPaths New [''/a'', ''/b'']"
  have h1: "Supported ''foo.service''" and h2: "\<not> IsAbs ''foo.service''"
    and h3: "1 < length (paths ?sys)"
    and h4: "Open ?e ''/a/foo.service'' = NotExist"
    and h5: "Open ?e ''/b/foo.service'' = Opened (regular [])"
    and h6: "stat_err (regular []) = None" and h7: "\<not> is_dir (regular [])"
    and h8: "loader_of ?sys ''foo.service'' = Some Service"
    and h9: "Define ?e Service (content (regular [])) = Inr no_dependencies"
    by (simp_all add: example_defs loader_of_def)
  have j: "Join ?e (paths ?sys ! 1) ''foo.service'' = ''/b/foo.service''"
    by (simp add: example_defs)
  have h4': "\<forall>j<1. Open ?e (Join ?e (paths ?sys ! j) ''foo.service'') = NotExist"
    by (simp add: example_defs)
  have h5': "Open ?e (Join ?e (paths ?sys ! 1) ''foo.service'') = Opened (regular [])"
    by (simp add: example_defs)
  from load_first_existing_path [OF h1 h2 h3 h4' h5' h6 h8, of no_dependencies] h7 h9 j
  have "\<exists>u sys'. load ?e ?sys ''foo.service'' = (Returned (Some u, None), sys') \<and>
      units sys' ''foo.service'' = Some u \<and> u_path (heap sys' u) = ''/b/foo.service'' \<and>
      u_load (heap sys' u) = Loaded"
    by (auto simp: regular_def)
  with h1 h2 h3 h4 h5 h6 h7 h8 show ?thesis by blast
qed

subsection \<open>Aliases\<close>








subsection \<open>\<open>IsEnabled\<close>\<close>

text \<open>
  C10. For every daemon and every name, \<open>IsEnabled\<close> returns \<open>ErrNotImplemented\<close>; the
  value beside the error is the constant \<open>-1\<close> in log.go and the constant \<open>unit.Enabled\<close>
  in daemon.go, so the result is the same for all daemons and all names: no unit is
  looked up and nothing about a unit is reported.
\<close>

theorem IsEnabled_not_implemented:
  "IsEnabled sys n = (- 1, Some ErrNotImplemented) \<and>
   IsEnabled0 Enabled sys0 n = (Enabled, Some ErrNotImplemented) \<and>
   IsEnabled sys n = IsEnabled sys' n' \<and>
   IsEnabled0 Enabled sys0 n = IsEnabled0 Enabled sys0' n'"
  by (simp add: IsEnabled_def IsEnabled0_def)

section \<open>Transactions and \<open>Isolate\<close> (log.go)\<close>

text \<open>
  Modelled from the spec: the transaction type, with its constructor, \<open>add\<close> and \<open>Run\<close>, and
  the job type are not among the source files; \<open>Isolate\<close> and \<open>newTransaction\<close> of log.go
  only call them. A job is the spec's tuple of target unit, operation, mandatory flag
  and matters-on-failure flag; a transaction is the spec's map from a unit to its single
  current job (\<open>unmerged\<close>).
\<close>

datatype jobType = start | stop | restart | reload

record job =
  j_typ :: jobType
  j_unit :: uptr
  j_mandatory :: bool
  j_matters :: bool

record transaction =
  unmerged :: "uptr \<rightharpoonup> job"

text \<open>
  Modelled from the spec: \<open>add(type, unit, requested-by, mandatory, matters)\<close>. When the
  unit has no job yet, the job is inserted, the unit's required names are added as
  mandatory jobs, where a name that does not resolve or a job that cannot be added fails
  the whole call with a dependency failure (\<open>each_required\<close>), and then its wanted names
  are added as best-effort jobs, where a failure is passed over (\<open>each_wanted\<close>). When the
  unit has a job already (\<open>merge\<close>), a job of the same type changes nothing, and a job of
  another type replaces the old one if the new one is mandatory and the old one is not,
  and otherwise fails with a transaction conflict. Names are resolved with \<open>Get\<close>. The
  spec does not say which type and flags a dependency's job gets; here it gets the type
  of the job that pulled it in and has both flags set exactly when it is required. The
  recursion through the dependencies is bounded by \<open>k\<close>.
\<close>

definition resolved :: "result \<Rightarrow> uptr option" where
  "resolved r = (case r of Returned (Some d, None) \<Rightarrow> Some d | _ \<Rightarrow> None)"

definition stopped :: "'a outcome \<Rightarrow> 'b outcome option" where
  "stopped r = (case r of OutOfFuel \<Rightarrow> Some OutOfFuel | Panicked msg \<Rightarrow> Some (Panicked msg) | Returned _ \<Rightarrow> None)"

definition merge :: "jobType \<Rightarrow> uptr \<Rightarrow> bool \<Rightarrow> bool \<Rightarrow> job \<Rightarrow> transaction \<Rightarrow> error option \<times> transaction" where
  "merge ty u mand matt j tr =
     (if j_typ j = ty then (None, tr)
      else if mand \<and> \<not> j_mandatory j
      then (None, tr\<lparr>unmerged := (unmerged tr)
              (u \<mapsto> \<lparr>j_typ = ty, j_unit = u, j_mandatory = mand, j_matters = matt\<rparr>)\<rparr>)
      else (Some ErrTransactionConflict, tr))"

type_synonym added = "(error option \<times> transaction) outcome \<times> Daemon"

fun each_required :: "(uptr \<Rightarrow> Daemon \<Rightarrow> transaction \<Rightarrow> added) \<Rightarrow> env \<Rightarrow> string list \<Rightarrow> Daemon \<Rightarrow> transaction \<Rightarrow> added" where
  "each_required f e [] sys tr = (Returned (None, tr), sys)"
| "each_required f e (n # ns) sys tr =
     (let g = Get e sys n
      in case stopped (fst g) of
           Some halt \<Rightarrow> (halt, snd g)
         | None \<Rightarrow>
             (case resolved (fst g) of
                None \<Rightarrow> (Returned (Some ErrDepFail, tr), snd g)
              | Some d \<Rightarrow>
                  (let r = f d (snd g) tr
                   in case fst r of
                        Returned (None, tr1) \<Rightarrow> each_required f e ns (snd r) tr1
                      | Returned (Some x, tr1) \<Rightarrow> (Returned (Some ErrDepFail, tr1), snd r)
                      | _ \<Rightarrow> r)))"

fun each_wanted :: "(uptr \<Rightarrow> Daemon \<Rightarrow> transaction \<Rightarrow> added) \<Rightarrow> env \<Rightarrow> string list \<Rightarrow> Daemon \<Rightarrow> transaction \<Rightarrow> added" where
  "each_wanted f e [] sys tr = (Returned (None, tr), sys)"
| "each_wanted f e (n # ns) sys tr =
     (let g = Get e sys n
      in case stopped (fst g) of
           Some halt \<Rightarrow> (halt, snd g)
         | None \<Rightarrow>
             (case resolved (fst g) of
                None \<Rightarrow> each_wanted f e ns (snd g) tr
              | Some d \<Rightarrow>
                  (let r = f d (snd g) tr
                   in case fst r of
                        Returned (x, tr1) \<Rightarrow> each_wanted f e ns (snd r) tr1
                      | _ \<Rightarrow> r)))"

primrec add :: "nat \<Rightarrow> env \<Rightarrow> jobType \<Rightarrow> uptr \<Rightarrow> uptr option \<Rightarrow> bool \<Rightarrow> bool \<Rightarrow> Daemon \<Rightarrow> transaction \<Rightarrow> added" where
  "add 0 e ty u parent mand matt sys tr = (OutOfFuel, sys)"
| "add (Suc k) e ty u parent mand matt sys tr =
     (case unmerged tr u of
        Some j \<Rightarrow> (Returned (merge ty u mand matt j tr), sys)
      | None \<Rightarrow>
          (let r = each_required (\<lambda>d. add k e ty d (Some u) True True) e
                     (Requires (definition_of (heap sys u))) sys
                     (tr\<lparr>unmerged := (unmerged tr)
                        (u \<mapsto> \<lparr>j_typ = ty, j_unit = u, j_mandatory = mand, j_matters = matt\<rparr>)\<rparr>)
           in case fst r of
                Returned (None, tr1) \<Rightarrow>
                  each_wanted (\<lambda>d. add k e ty d (Some u) False False) e
                    (Wants (definition_of (heap sys u))) (snd r) tr1
              | _ \<Rightarrow> r))"


text \<open>
  \<open>newTransaction(typ, names)\<close> of log.go resolves each name with \<open>Get\<close> and adds a
  mandatory job for it; the first error ends it. \<open>newTransaction0\<close> is the empty transaction
  that the absent constructor \<open>newTransaction()\<close> returns.
\<close>

definition newTransaction0 :: transaction where
  "newTransaction0 = \<lparr>unmerged = Map.empty\<rparr>"

fun newTransaction_loop :: "nat \<Rightarrow> env \<Rightarrow> jobType \<Rightarrow> string list \<Rightarrow> Daemon \<Rightarrow> transaction \<Rightarrow>
    (error + transaction) outcome \<times> Daemon" where
  "newTransaction_loop k e ty [] sys tr = (Returned (Inr tr), sys)"
| "newTransaction_loop k e ty (n # ns) sys tr =
     (let g = Get e sys n
      in case fst g of
           OutOfFuel \<Rightarrow> (OutOfFuel, snd g)
         | Panicked msg \<Rightarrow> (Panicked msg, snd g)
         | Returned (dep, Some err) \<Rightarrow> (Returned (Inl err), snd g)
         | Returned (None, None) \<Rightarrow> (Panicked nil_dereference, snd g)
         | Returned (Some d, None) \<Rightarrow>
             (let r = add k e ty d None True True (snd g) tr
              in case fst r of
                   OutOfFuel \<Rightarrow> (OutOfFuel, snd r)
                 | Panicked msg \<Rightarrow> (Panicked msg, snd r)
                 | Returned (Some err, tr1) \<Rightarrow> (Returned (Inl err), snd r)
                 | Returned (None, tr1) \<Rightarrow> newTransaction_loop k e ty ns (snd r) tr1))"

definition newTransaction :: "nat \<Rightarrow> env \<Rightarrow> jobType \<Rightarrow> string list \<Rightarrow> Daemon \<Rightarrow>
    (error + transaction) outcome \<times> Daemon" where
  "newTransaction k e ty names sys = newTransaction_loop k e ty names sys newTransaction0"

text \<open>
  \<open>Isolate\<close> builds a start transaction for the names and then walks \<open>sys.Units()\<close>, the
  slice of all units the daemon has created, each once and in no fixed order (\<open>Units\<close>
  gives the slice, \<open>is_Units\<close> says what a slice of the daemon's units is). A unit that
  has a job in the transaction is skipped; for every other unit a mandatory stop job is
  added. The loop does not ask whether the unit is active. The result is the error, or
  the transaction on which \<open>Isolate\<close> calls \<open>Run\<close>.
\<close>

fun Isolate_loop :: "nat \<Rightarrow> env \<Rightarrow> uptr list \<Rightarrow> Daemon \<Rightarrow> transaction \<Rightarrow>
    (error + transaction) outcome \<times> Daemon" where
  "Isolate_loop k e [] sys tr = (Returned (Inr tr), sys)"
| "Isolate_loop k e (u # us) sys tr =
     (if unmerged tr u \<noteq> None then Isolate_loop k e us sys tr
      else (let r = add k e stop u None True True sys tr
            in case fst r of
                 OutOfFuel \<Rightarrow> (OutOfFuel, snd r)
               | Panicked msg \<Rightarrow> (Panicked msg, snd r)
               | Returned (Some err, tr1) \<Rightarrow> (Returned (Inl err), snd r)
               | Returned (None, tr1) \<Rightarrow> Isolate_loop k e us (snd r) tr1))"

definition Isolate :: "nat \<Rightarrow> env \<Rightarrow> (Daemon \<Rightarrow> uptr list) \<Rightarrow> Daemon \<Rightarrow> string list \<Rightarrow>
    (error + transaction) outcome \<times> Daemon" where
  "Isolate k e Units sys names =
     (let r = newTransaction k e start names sys
      in case fst r of
           Returned (Inr tr) \<Rightarrow> Isolate_loop k e (Units (snd r)) (snd r) tr
         | _ \<Rightarrow> r)"

definition is_Units :: "Daemon \<Rightarrow> uptr list \<Rightarrow> bool" where
  "is_Units sys us = (distinct us \<and> set us = ran (units sys))"

subsection \<open>Isolating one of four units\<close>

text \<open>
  A daemon with the loaded units \<open>A.service\<close>, \<open>B.service\<close>, \<open>C.service\<close> (active) and
  \<open>D.service\<close> (inactive), each also registered under its alias, none with dependencies.
\<close>

definition four_names :: "(string \<times> uptr) list" where
  "four_names = [(''A.service'', 0), (''A'', 0), (''B.service'', 1), (''B'', 1),
                 (''C.service'', 2), (''C'', 2), (''D.service'', 3), (''D'', 3)]"

definition four_units :: Daemon where
  "four_units =
     \<lparr>units = map_of four_names,
      paths = DEFAULT_PATHS,
      heap = (\<lambda>u. (NewUnit Service)\<lparr>u_load := Loaded,
                       u_active := (if u = 3 then Inactive else Active)\<rparr>),
      fresh = 4\<rparr>"

lemma four_is_Units: "is_Units four_units [0, 1, 2, 3]"
proof -
  have "distinct (map fst four_names)" by (simp add: four_names_def)
  then have "ran (map_of four_names) = snd ` set four_names" by (rule ran_distinct)
  also have "\<dots> = {0, 1, 2, 3}" by (simp add: four_names_def)
  finally show ?thesis by (auto simp: is_Units_def four_units_def)
qed

text \<open>
  C3. The comment of \<open>Isolate\<close> promises a stop job "for each unit currently active, but
  not in the transaction already". For the daemon above, \<open>Isolate\<close> of \<open>A.service\<close> builds
  a transaction with a start job for \<open>A\<close>, stop jobs for the active units \<open>B\<close> and \<open>C\<close>, and
  also a stop job for \<open>D\<close>, which is not active.
\<close>

theorem isolate_stops_inactive_unit:
  "u_active (heap four_units 3) = Inactive \<and>
   (case Isolate 2 (example_env []) (\<lambda>sys. [0, 1, 2, 3]) four_units [''A.service''] of
      (r, sys') \<Rightarrow>
        sys' = four_units \<and>
        (case r of
           Returned (Inr tr) \<Rightarrow>
             map (\<lambda>u. map_option j_typ (unmerged tr u)) [0, 1, 2, 3] =
               [Some start, Some stop, Some stop, Some stop]
         | _ \<Rightarrow> False))"
  by (simp add: Isolate_def newTransaction_def newTransaction0_def Get_def Unit_of_def IsLoaded_def
      four_units_def four_names_def NewUnit_def no_dependencies_def eval_nat_numeral merge_def)

section \<open>The daemon of daemon.go: ordering a transaction\<close>

text \<open>
  Names that both files declare carry a \<open>0\<close> here when they are daemon.go's. In daemon.go a
  \<open>*Unit\<close> can be nil: \<open>loadDeps\<close> stores whatever \<open>Get\<close> returned for a wanted unit, an error
  included. A pointer is \<open>Some\<close> of an address, or \<open>None\<close> for nil.
\<close>

type_synonym ptr = "uptr option"

subsection \<open>\<open>graph\<close> and \<open>traverse\<close>\<close>

text \<open>
  The struct \<open>graph\<close>. \<open>ordered\<close> and \<open>visited\<close> are maps to the empty struct, that is, sets.
  \<open>before\<close> maps a unit to a map from names to units, the units that have to come before
  it; the inner maps are kept as association lists with one pair per key, and a key that
  is missing from the outer map reads as the nil map. Go leaves the order in which
  \<open>range\<close> visits a map open: \<open>pick u xs\<close> is the order in which the entries \<open>xs\<close> of
  \<open>g.before[u]\<close> are visited, any permutation of them (\<open>permutes\<close> below).
\<close>

record graph =
  ordered :: "ptr set"
  visited :: "ptr set"
  before :: "ptr \<rightharpoonup> (string \<times> ptr) list"
  ordering :: "ptr list"



text \<open>
  \<open>finish\<close> is the end of \<open>traverse\<close>: the unit leaves \<open>visited\<close> and, unless it is ordered
  already, is appended to the ordering. \<open>traverse\<close> itself takes a bound \<open>k\<close> on the depth of
  its recursion; \<open>traverse_range\<close> is its loop over \<open>g.before[u]\<close>, which wraps the error of a
  failed recursive call into the chain of names and returns at once.
\<close>

definition finish :: "graph \<Rightarrow> ptr \<Rightarrow> graph" where
  "finish g u =
     (let g1 = g\<lparr>visited := visited g - {u}\<rparr>
      in if u \<notin> ordered g1
         then g1\<lparr>ordering := ordering g1 @ [u], ordered := insert u (ordered g1)\<rparr>
         else g1)"



subsection \<open>Correctness of the traversal\<close>

text \<open>
  \<open>preds b u\<close> are the units in \<open>b[u]\<close>, \<open>pred_rel b\<close> is the relation "comes before" that \<open>b\<close>
  holds, and \<open>precedes p u xs\<close> says that \<open>u\<close> occurs in the list \<open>xs\<close> with \<open>p\<close> somewhere in
  front of it. \<open>topo\<close> is the invariant of the traversal: the ordering lists exactly the
  ordered units, once each, and every ordered unit has all its predecessors in front of
  it. \<open>permutes pick\<close> says that \<open>pick\<close> visits each entry of a map exactly once.
\<close>

definition preds :: "(ptr \<rightharpoonup> (string \<times> ptr) list) \<Rightarrow> ptr \<Rightarrow> ptr set" where
  "preds b u = (case b u of None \<Rightarrow> {} | Some xs \<Rightarrow> snd ` set xs)"


definition precedes :: "'a \<Rightarrow> 'a \<Rightarrow> 'a list \<Rightarrow> bool" where
  "precedes p u xs = (\<exists>ys zs. xs = ys @ u # zs \<and> p \<in> set ys)"

definition topo :: "(ptr \<rightharpoonup> (string \<times> ptr) list) \<Rightarrow> ptr set \<Rightarrow> graph \<Rightarrow> bool" where
  "topo b U g = (set (ordering g) = ordered g \<and> distinct (ordering g) \<and> ordered g \<subseteq> U \<and>
     (\<forall>u\<in>ordered g. \<forall>p\<in>preds b u. precedes p u (ordering g)))"






lemma finish_simps [simp]:
  "before (finish g u) = before g" "visited (finish g u) = visited g - {u}"
  "ordered (finish g u) = insert u (ordered g)"
  by (auto simp: finish_def Let_def)

lemma topo_visited [simp]: "topo b U (g\<lparr>visited := V\<rparr>) = topo b U g"
  by (simp add: topo_def)







subsection \<open>\<open>order\<close>\<close>











subsection \<open>The graph that \<open>order\<close> builds\<close>

















subsection \<open>A transaction of three units\<close>













section \<open>The daemon of daemon.go: \<open>Start\<close>\<close>












subsection \<open>The cycle of two units\<close>










subsection \<open>Two loaded units that wait for each other\<close>






end
